theory Spec2Isabelle
  imports Complex_Main
begin

section \<open>Values of the training job\<close>

text \<open>
  The development embeds \<^verbatim>\<open>trainer/task_hypertune.py\<close>. Python exceptions are values:
  the built-in errors the embedded library functions raise, \<open>SystemExit\<close> with
  its status (raised by argparse), and \<open>LibraryError\<close> for an exception raised inside
  an external library call (dataset download, Keras, the storage client, the summary
  writer), tagged with a name.
\<close>

datatype exn =
    TypeError
  | ValueError
  | IndexError
  | OverflowError
  | SystemExit int
  | LibraryError string

text \<open>
  A numpy array is its shape and its elements in row-major order. Label arrays are
  one-dimensional (the shape \<open>(n,)\<close> of the MNIST labels) and are lists; the encoded
  label matrix is the list of its rows. Floating-point numbers are read as the reals
  they denote, and \<open>/\<close> is exact division.
\<close>

datatype 'a ndarray = NDArray (shape: "nat list") (data: "'a list")

subsection \<open>\<^verbatim>\<open>_preprocess_x\<close>\<close>

text \<open>\<^verbatim>\<open>return x / 255.0\<close>: elementwise true division, same shape.\<close>

definition preprocess_x :: "int ndarray \<Rightarrow> real ndarray" where
  "preprocess_x x = NDArray (shape x) (map (\<lambda>v. real_of_int v / 255.0) (data x))"

subsection \<open>\<^verbatim>\<open>to_categorical\<close> and \<^verbatim>\<open>_preprocess_y\<close>\<close>

text \<open>
  \<^verbatim>\<open>np.array(y, dtype='int')\<close>: the labels become 64-bit signed integers; an integer
  outside that range raises OverflowError. Arithmetic on these integers wraps around.
\<close>

definition in_int64 :: "int \<Rightarrow> bool" where
  "in_int64 v = (- (2 ^ 63) \<le> v \<and> v < 2 ^ 63)"

definition int64_wrap :: "int \<Rightarrow> int" where
  "int64_wrap v = (v + 2 ^ 63) mod 2 ^ 64 - 2 ^ 63"

definition np_array_int :: "int list \<Rightarrow> exn + int list" where
  "np_array_int y = (if \<forall>v \<in> set y. in_int64 v then Inr y else Inl OverflowError)"

text \<open>
  \<^verbatim>\<open>np.max(y)\<close> raises ValueError on an empty array.
\<close>

fun np_max :: "int list \<Rightarrow> exn + int" where
  "np_max [] = Inl ValueError"
| "np_max (l # ls) = Inr (fold max ls l)"

text \<open>
  Keras' \<^verbatim>\<open>to_categorical(y)\<close> on a one-dimensional integer array, called without
  \<^verbatim>\<open>num_classes\<close>:
  \<^verbatim>\<open>
    y = np.array(y, dtype='int')
    num_classes = np.max(y) + 1
    n = y.shape[0]
    categorical = np.zeros((n, num_classes))
    categorical[np.arange(n), y] = 1
  \<close>
  The sum \<^verbatim>\<open>np.max(y) + 1\<close> is a 64-bit sum. \<^verbatim>\<open>np.zeros\<close> raises ValueError on a
  negative dimension; the indexed assignment raises IndexError when a column index is
  outside \<open>[-num_classes, num_classes)\<close> and counts a negative index from the end of
  the row.
\<close>

definition np_zeros_row :: "nat \<Rightarrow> real list" where
  "np_zeros_row c = replicate c 0"

definition column_index :: "int \<Rightarrow> int \<Rightarrow> nat" where
  "column_index num_classes l = nat (if l < 0 then l + num_classes else l)"

definition to_categorical :: "int list \<Rightarrow> exn + real list list" where
  "to_categorical y0 =
     (case np_array_int y0 of
        Inl e \<Rightarrow> Inl e
      | Inr y \<Rightarrow>
          (case np_max y of
             Inl e \<Rightarrow> Inl e
           | Inr mx \<Rightarrow>
               (let num_classes = int64_wrap (mx + 1) in
                if num_classes < 0 then Inl ValueError
                else if \<exists>l \<in> set y. l < - num_classes \<or> num_classes \<le> l then Inl IndexError
                else Inr (map (\<lambda>l. (np_zeros_row (nat num_classes))
                                       [column_index num_classes l := 1]) y))))"

text \<open>\<^verbatim>\<open>return to_categorical(y)\<close>\<close>

definition preprocess_y :: "int list \<Rightarrow> exn + real list list" where
  "preprocess_y y = to_categorical y"

section \<open>Paths\<close>

text \<open>
  \<^verbatim>\<open>os.path.join(a, b)\<close> (POSIX): \<^verbatim>\<open>os.fspath(a)\<close> raises TypeError when \<open>a\<close> is
  \<^verbatim>\<open>None\<close>; a component that starts with the separator replaces the path; otherwise
  the component is appended, after a separator unless the path is empty or already
  ends with one.
\<close>

definition startswith_sep :: "string \<Rightarrow> bool" where
  "startswith_sep b = (case b of [] \<Rightarrow> False | c # _ \<Rightarrow> c = CHR ''/'')"

definition endswith_sep :: "string \<Rightarrow> bool" where
  "endswith_sep path = (case rev path of [] \<Rightarrow> False | c # _ \<Rightarrow> c = CHR ''/'')"

definition os_path_join :: "string option \<Rightarrow> string \<Rightarrow> exn + string" where
  "os_path_join a b =
     (case a of
        None \<Rightarrow> Inl TypeError
      | Some path \<Rightarrow>
          Inr (if startswith_sep b then b
               else if path = [] \<or> endswith_sep path then path @ b
               else path @ ''/'' @ b))"

section \<open>The outside world\<close>

text \<open>
  Every call into an external library is an event of the run, recorded in call order
  with the arguments the claims speak about.
\<close>

datatype callback = TensorBoard string

datatype event =
    Logger_info string
  | Mnist_load_data
  | Time_strftime string
  | Build_model
  | Model_compile
  | Model_fit int int "callback list"
  | Model_evaluate
  | Model_save string
  | Storage_client
  | Upload_from_filename "string option" string string
  | File_writer string
  | Add_summary string "(string \<times> real) list"
  | Writer_flush string

text \<open>
  The state of the world the job acts on: the calls made so far, the files of the
  working directory, and the scalar summaries handed to summary writers, each with
  the writer's directory, its tag and its value.
\<close>

record world =
  trace :: "event list"
  local_files :: "string set"
  summaries :: "(string \<times> string \<times> real) list"

text \<open>
  What the external libraries answer. Each call either returns or raises; the answers
  are parameters of the model. \<open>'m\<close> is the type of Keras models. \<open>build_model\<close>
  is imported from \<^verbatim>\<open>trainer/model.py\<close>, a parameter as well. \<open>time_strftime\<close>
  gives the text the clock yields for a format; the job uses each of its two formats
  once. \<open>builtin_int\<close> is Python's \<^verbatim>\<open>int(str)\<close>, \<open>None\<close> where it raises ValueError.
\<close>

type_synonym dataset = "(int ndarray \<times> int list) \<times> (int ndarray \<times> int list)"

record 'm libs =
  mnist_load_data :: "exn + dataset"
  time_strftime :: "string \<Rightarrow> string"
  build_model :: "exn + 'm"
  model_compile :: "'m \<Rightarrow> exn + 'm"
  model_fit :: "'m \<Rightarrow> real ndarray \<Rightarrow> real list list \<Rightarrow> int \<Rightarrow> int \<Rightarrow> callback list \<Rightarrow> exn + 'm"
  model_evaluate :: "'m \<Rightarrow> real ndarray \<Rightarrow> real list list \<Rightarrow> exn + (real \<times> real)"
  model_save :: "'m \<Rightarrow> string \<Rightarrow> exn + unit"
  storage_client :: "exn + unit"
  upload_from_filename :: "string option \<Rightarrow> string \<Rightarrow> string \<Rightarrow> exn + unit"
  file_writer :: "string \<Rightarrow> exn + unit"
  add_summary :: "string \<Rightarrow> (string \<times> real) list \<Rightarrow> exn + unit"
  writer_flush :: "string \<Rightarrow> exn + unit"
  builtin_int :: "string \<Rightarrow> int option"

subsection \<open>Statements that may raise\<close>

text \<open>
  A statement maps the world to its outcome and the world after it. \<open>bind\<close> is
  sequencing: when the first statement raises, the second is not run and the
  exception is the outcome. There is no \<^verbatim>\<open>try\<close> in the program, hence no handler
  here.
\<close>

type_synonym 'a io = "world \<Rightarrow> (exn + 'a) \<times> world"

definition ret :: "'a \<Rightarrow> 'a io" where
  "ret x = (\<lambda>w. (Inr x, w))"

definition bind :: "'a io \<Rightarrow> ('a \<Rightarrow> 'b io) \<Rightarrow> 'b io" where
  "bind m f = (\<lambda>w. case m w of (Inl e, w') \<Rightarrow> (Inl e, w') | (Inr x, w') \<Rightarrow> f x w')"

definition lift :: "exn + 'a \<Rightarrow> 'a io" where
  "lift r = (\<lambda>w. (r, w))"

text \<open>An effect on the world that cannot raise.\<close>

definition effect :: "(world \<Rightarrow> world) \<Rightarrow> unit io" where
  "effect g = (\<lambda>w. (Inr (), g w))"

text \<open>A library call: the call is recorded, its answer is the outcome.\<close>

definition call :: "event \<Rightarrow> exn + 'a \<Rightarrow> 'a io" where
  "call ev answer = (\<lambda>w. (answer, w\<lparr>trace := trace w @ [ev]\<rparr>))"

text \<open>\<^verbatim>\<open>LOGGER.info(msg)\<close>\<close>

definition LOGGER_info :: "string \<Rightarrow> unit io" where
  "LOGGER_info msg = call (Logger_info msg) (Inr ())"

text \<open>\<^verbatim>\<open>time.strftime(fmt)\<close>\<close>

definition strftime :: "'m libs \<Rightarrow> string \<Rightarrow> string io" where
  "strftime L fmt = call (Time_strftime fmt) (Inr (time_strftime L fmt))"

text \<open>\<^verbatim>\<open>m.save(fn)\<close>: when it returns, the file exists.\<close>

definition m_save :: "'m libs \<Rightarrow> 'm \<Rightarrow> string \<Rightarrow> unit io" where
  "m_save L m fn =
     bind (call (Model_save fn) (model_save L m fn))
       (\<lambda>_. effect (\<lambda>w. w\<lparr>local_files := insert fn (local_files w)\<rparr>))"

text \<open>
  \<^verbatim>\<open>summary_writer.add_summary(summary)\<close>: when it returns, every value of the summary
  is recorded for the writer's directory.
\<close>

definition writer_add_summary :: "'m libs \<Rightarrow> string \<Rightarrow> (string \<times> real) list \<Rightarrow> unit io" where
  "writer_add_summary L path summary =
     bind (call (Add_summary path summary) (add_summary L path summary))
       (\<lambda>_. effect (\<lambda>w. w\<lparr>summaries := summaries w @ map (\<lambda>(tag, v). (path, tag, v)) summary\<rparr>))"

section \<open>The training job\<close>

subsection \<open>\<^verbatim>\<open>prepare_data\<close>\<close>

type_synonym split = "real ndarray \<times> real list list"

definition prepare_data :: "'m libs \<Rightarrow> (split \<times> split) io" where
  "prepare_data L =
     bind (LOGGER_info ''Preparing and downloading data'') (\<lambda>_.
     bind (call Mnist_load_data (mnist_load_data L)) (\<lambda>(train_data, test_data).
     case train_data of (x_train, y_train) \<Rightarrow>
     case test_data of (x_test, y_test) \<Rightarrow>
     bind (ret (preprocess_x x_train)) (\<lambda>x_train_norm.
     bind (ret (preprocess_x x_test)) (\<lambda>x_test_norm.
     bind (lift (preprocess_y y_train)) (\<lambda>y_train_cat.
     bind (lift (preprocess_y y_test)) (\<lambda>y_test_cat.
     ret ((x_train_norm, y_train_cat), (x_test_norm, y_test_cat))))))))"

subsection \<open>\<^verbatim>\<open>train_and_evaluate\<close>\<close>

definition train_and_evaluate ::
  "'m libs \<Rightarrow> split \<Rightarrow> split \<Rightarrow> string option \<Rightarrow> string \<Rightarrow> string option \<Rightarrow> int \<Rightarrow> int \<Rightarrow> unit io" where
  "train_and_evaluate L train_data test_data bucket_name path_in_bucket job_dir batch_size epochs =
     bind (strftime L ''%Y%m%d-%H%M%S'') (\<lambda>ts.
     bind (lift (os_path_join job_dir (''logs/scalars/'' @ ts))) (\<lambda>logdir.
     bind (LOGGER_info (''Writing TensorBoard logs to '' @ logdir)) (\<lambda>_.
     bind (ret (TensorBoard logdir)) (\<lambda>tb_callback.
     bind (call Build_model (build_model L)) (\<lambda>m.
     bind (call Model_compile (model_compile L m)) (\<lambda>m.
     case train_data of (x_train, y_train) \<Rightarrow>
     case test_data of (x_test, y_test) \<Rightarrow>
     bind (call (Model_fit batch_size epochs [tb_callback])
             (model_fit L m x_train y_train batch_size epochs [tb_callback])) (\<lambda>m.
     bind (call Model_evaluate (model_evaluate L m x_test y_test)) (\<lambda>(test_loss, test_acc).
     bind (ret ''mymodel.h5'') (\<lambda>localfn.
     bind (m_save L m localfn) (\<lambda>_.
     bind (strftime L ''%Y%m%d%H%M%S'') (\<lambda>ts.
     bind (ret (''mnist_keras_'' @ ts @ ''.h5'')) (\<lambda>fn.
     bind (lift (os_path_join (Some path_in_bucket) fn)) (\<lambda>output_path_gcs.
     bind (call Storage_client (storage_client L)) (\<lambda>client.
     bind (LOGGER_info (''Uploading model to '' @ output_path_gcs)) (\<lambda>_.
     bind (call (Upload_from_filename bucket_name output_path_gcs localfn)
             (upload_from_filename L bucket_name output_path_gcs localfn)) (\<lambda>_.
     bind (ret ''accuracyMnist'') (\<lambda>metric_tag.
     bind (ret [(metric_tag, test_acc)]) (\<lambda>summary.
     bind (lift (os_path_join job_dir metric_tag)) (\<lambda>eval_path.
     bind (LOGGER_info (''Writing metrics to '' @ eval_path)) (\<lambda>_.
     bind (call (File_writer eval_path) (file_writer L eval_path)) (\<lambda>summary_writer.
     bind (writer_add_summary L eval_path summary) (\<lambda>_.
     call (Writer_flush eval_path) (writer_flush L eval_path)))))))))))))))))))))))"

section \<open>The command line\<close>

text \<open>
  The five \<^verbatim>\<open>add_argument\<close> calls declare five options; the parser adds \<^verbatim>\<open>-h/--help\<close>.
  A command line is the sequence of items argparse acts on, in order, once each
  argument string is matched to an option: a declared option with its value, a
  declared option whose value is missing, the help option, or a string that matches
  nothing (an unknown option or a positional argument).
\<close>

datatype dest = Output_bucket | Output_path | Batch_size | Epochs | Job_dir

datatype arg = Opt dest string | Opt_no_value dest | Help | Unrecognized string

record namespace =
  output_bucket :: "string option"
  output_path :: string
  batch_size :: int
  epochs :: int
  job_dir :: "string option"

text \<open>The \<^verbatim>\<open>required=\<close> and \<^verbatim>\<open>default=\<close> of each declaration.\<close>

fun required :: "dest \<Rightarrow> bool" where
  "required Output_bucket = True"
| "required Output_path = True"
| "required Batch_size = False"
| "required Epochs = False"
| "required Job_dir = False"

definition defaults :: namespace where
  "defaults = \<lparr>output_bucket = None, output_path = [], batch_size = 64, epochs = 30,
                job_dir = None\<rparr>"

text \<open>
  The store action of an option: \<^verbatim>\<open>type=int\<close> converts the value and exits with
  status 2 when the conversion fails.
\<close>

fun store :: "'m libs \<Rightarrow> dest \<Rightarrow> string \<Rightarrow> namespace \<Rightarrow> exn + namespace" where
  "store L Output_bucket v ns = Inr (ns\<lparr>output_bucket := Some v\<rparr>)"
| "store L Output_path v ns = Inr (ns\<lparr>output_path := v\<rparr>)"
| "store L Batch_size v ns =
     (case builtin_int L v of None \<Rightarrow> Inl (SystemExit 2) | Some n \<Rightarrow> Inr (ns\<lparr>batch_size := n\<rparr>))"
| "store L Epochs v ns =
     (case builtin_int L v of None \<Rightarrow> Inl (SystemExit 2) | Some n \<Rightarrow> Inr (ns\<lparr>epochs := n\<rparr>))"
| "store L Job_dir v ns = Inr (ns\<lparr>job_dir := Some v\<rparr>)"

text \<open>
  The items are consumed from left to right. Help prints and exits with status 0 on
  the spot; a missing value is an error on the spot; unmatched strings are collected.
\<close>

fun consume ::
  "'m libs \<Rightarrow> arg list \<Rightarrow> namespace \<Rightarrow> dest list \<Rightarrow> string list \<Rightarrow>
   exn + (namespace \<times> dest list \<times> string list)" where
  "consume L [] ns seen extras = Inr (ns, seen, extras)"
| "consume L (Help # rest) ns seen extras = Inl (SystemExit 0)"
| "consume L (Opt_no_value d # rest) ns seen extras = Inl (SystemExit 2)"
| "consume L (Unrecognized s # rest) ns seen extras = consume L rest ns seen (extras @ [s])"
| "consume L (Opt d v # rest) ns seen extras =
     (case store L d v ns of
        Inl e \<Rightarrow> Inl e
      | Inr ns' \<Rightarrow> consume L rest ns' (d # seen) extras)"

text \<open>
  \<^verbatim>\<open>parser.parse_args()\<close>: after the items are consumed, a required option that was
  not seen is an error, then a collected unmatched string is an error; both exit with
  status 2.
\<close>

definition parse_args :: "'m libs \<Rightarrow> arg list \<Rightarrow> exn + namespace" where
  "parse_args L argv =
     (case consume L argv defaults [] [] of
        Inl e \<Rightarrow> Inl e
      | Inr (ns, seen, extras) \<Rightarrow>
          if \<exists>d \<in> set [Output_bucket, Output_path, Batch_size, Epochs, Job_dir].
               required d \<and> d \<notin> set seen
          then Inl (SystemExit 2)
          else if extras \<noteq> [] then Inl (SystemExit 2)
          else Inr ns)"

subsection \<open>The \<^verbatim>\<open>__main__\<close> block\<close>

definition main :: "'m libs \<Rightarrow> arg list \<Rightarrow> unit io" where
  "main L argv =
     bind (lift (parse_args L argv)) (\<lambda>args.
     bind (prepare_data L) (\<lambda>(train_data, test_data).
     train_and_evaluate L train_data test_data (output_bucket args) (output_path args)
       (job_dir args) (batch_size args) (epochs args)))"

section \<open>Observations on a run\<close>

text \<open>The calls that hand a summary to a writer, and the calls that upload a file.\<close>

fun is_add_summary :: "event \<Rightarrow> bool" where
  "is_add_summary (Add_summary path summary) = True"
| "is_add_summary _ = False"

fun is_upload :: "event \<Rightarrow> bool" where
  "is_upload (Upload_from_filename bucket path fn) = True"
| "is_upload _ = False"

fun is_save :: "event \<Rightarrow> bool" where
  "is_save (Model_save fn) = True"
| "is_save _ = False"

text \<open>
  The separator \<^verbatim>\<open>os.path.join\<close> puts between a directory and a relative component.
\<close>

definition sep_after :: "string \<Rightarrow> string" where
  "sep_after dir = (if dir = [] \<or> endswith_sep dir then [] else ''/'')"

text \<open>
  The calls of a run of \<open>train_and_evaluate\<close> that returns, in order, for the paths it
  has built and the accuracy it has measured.
\<close>

definition run_events ::
  "string option \<Rightarrow> int \<Rightarrow> int \<Rightarrow> string \<Rightarrow> string \<Rightarrow> string \<Rightarrow> real \<Rightarrow> event list" where
  "run_events bucket bs ep logdir gcs eval_path acc =
     [Time_strftime ''%Y%m%d-%H%M%S'',
      Logger_info (''Writing TensorBoard logs to '' @ logdir),
      Build_model, Model_compile,
      Model_fit bs ep [TensorBoard logdir],
      Model_evaluate,
      Model_save ''mymodel.h5'',
      Time_strftime ''%Y%m%d%H%M%S'',
      Storage_client,
      Logger_info (''Uploading model to '' @ gcs),
      Upload_from_filename bucket gcs ''mymodel.h5'',
      Logger_info (''Writing metrics to '' @ eval_path),
      File_writer eval_path,
      Add_summary eval_path [(''accuracyMnist'', acc)],
      Writer_flush eval_path]"

text \<open>The calls of \<open>prepare_data\<close>.\<close>

definition prepare_events :: "event list" where
  "prepare_events = [Logger_info ''Preparing and downloading data'', Mnist_load_data]"

subsection \<open>A run with every dependency replaced\<close>

text \<open>
  Libraries that always return, over a tiny dataset: two training images and one test
  image of two pixels, a clock fixed per format, models counted by the calls made on
  them, and a test accuracy of \<open>3/4\<close>.
\<close>

definition mock_libs :: "nat libs" where
  "mock_libs = \<lparr>
     mnist_load_data = Inr ((NDArray [2, 1, 2] [0, 255, 51, 102], [1, 0]),
                            (NDArray [1, 1, 2] [204, 153], [1])),
     time_strftime =
       (\<lambda>fmt. if fmt = ''%Y%m%d-%H%M%S'' then ''20190301-120000'' else ''20190301120005''),
     build_model = Inr 0,
     model_compile = (\<lambda>m. Inr (Suc m)),
     model_fit = (\<lambda>m x y b e cbs. Inr (Suc m)),
     model_evaluate = (\<lambda>m x y. Inr (1 / 4, 3 / 4)),
     model_save = (\<lambda>m fn. Inr ()),
     storage_client = Inr (),
     upload_from_filename = (\<lambda>b p f. Inr ()),
     file_writer = (\<lambda>p. Inr ()),
     add_summary = (\<lambda>p s. Inr ()),
     writer_flush = (\<lambda>p. Inr ()),
     builtin_int = (\<lambda>s. if s = ''2'' then Some 2 else if s = ''1'' then Some 1 else None)\<rparr>"

definition empty_world :: world where
  "empty_world = \<lparr>trace = [], local_files = {}, summaries = []\<rparr>"

definition mock_train :: split where
  "mock_train = (NDArray [2, 1, 2] [0, 1, 1 / 5, 2 / 5], [[0, 1], [1, 0]])"

definition mock_test :: split where
  "mock_test = (NDArray [1, 1, 2] [4 / 5, 3 / 5], [[0, 1]])"

text \<open>The world after the run of the job on \<open>mock_libs\<close> below.\<close>

definition mock_events :: "event list" where
  "mock_events =
     [Time_strftime ''%Y%m%d-%H%M%S'',
      Logger_info ''Writing TensorBoard logs to job/logs/scalars/20190301-120000'',
      Build_model, Model_compile,
      Model_fit 2 1 [TensorBoard ''job/logs/scalars/20190301-120000''],
      Model_evaluate,
      Model_save ''mymodel.h5'',
      Time_strftime ''%Y%m%d%H%M%S'',
      Storage_client,
      Logger_info ''Uploading model to models/mnist_keras_20190301120005.h5'',
      Upload_from_filename (Some ''bkt'') ''models/mnist_keras_20190301120005.h5'' ''mymodel.h5'',
      Logger_info ''Writing metrics to job/accuracyMnist'',
      File_writer ''job/accuracyMnist'',
      Add_summary ''job/accuracyMnist'' [(''accuracyMnist'', 3 / 4)],
      Writer_flush ''job/accuracyMnist'']"

definition mock_final :: world where
  "mock_final = \<lparr>trace = mock_events, local_files = {''mymodel.h5''},
                  summaries = [(''job/accuracyMnist'', ''accuracyMnist'', 3 / 4)]\<rparr>"

text \<open>
  The calls of \<open>train_and_evaluate\<close> before the summary is handed to the writer.
\<close>

definition setup_events ::
  "string option \<Rightarrow> int \<Rightarrow> int \<Rightarrow> string \<Rightarrow> string \<Rightarrow> string \<Rightarrow> event list" where
  "setup_events bucket bs ep logdir gcs eval_path =
     [Time_strftime ''%Y%m%d-%H%M%S'',
      Logger_info (''Writing TensorBoard logs to '' @ logdir),
      Build_model, Model_compile,
      Model_fit bs ep [TensorBoard logdir],
      Model_evaluate,
      Model_save ''mymodel.h5'',
      Time_strftime ''%Y%m%d%H%M%S'',
      Storage_client,
      Logger_info (''Uploading model to '' @ gcs),
      Upload_from_filename bucket gcs ''mymodel.h5'',
      Logger_info (''Writing metrics to '' @ eval_path),
      File_writer eval_path]"

subsection \<open>Runs in which one dependency raises\<close>

text \<open>
  \<open>failing_libs step\<close> answers as \<open>mock_libs\<close> does, but the call named \<open>step\<close> raises
  a library error that carries that name; for the step \<open>labels\<close> the download returns
  a training split without labels, on which \<open>to_categorical\<close> raises.
\<close>

definition failing_libs :: "string \<Rightarrow> nat libs" where
  "failing_libs step = mock_libs\<lparr>
     mnist_load_data :=
       (if step = ''download'' then Inl (LibraryError step)
        else if step = ''labels''
          then Inr ((NDArray [0, 1, 2] [], []), (NDArray [1, 1, 2] [204, 153], [1]))
        else mnist_load_data mock_libs),
     build_model := (if step = ''build'' then Inl (LibraryError step) else Inr 0),
     model_compile := (\<lambda>m. if step = ''compile'' then Inl (LibraryError step) else Inr (Suc m)),
     model_fit :=
       (\<lambda>m x y b e cbs. if step = ''fit'' then Inl (LibraryError step) else Inr (Suc m)),
     model_evaluate :=
       (\<lambda>m x y. if step = ''evaluate'' then Inl (LibraryError step) else Inr (1 / 4, 3 / 4)),
     model_save := (\<lambda>m fn. if step = ''save'' then Inl (LibraryError step) else Inr ()),
     storage_client := (if step = ''client'' then Inl (LibraryError step) else Inr ()),
     upload_from_filename :=
       (\<lambda>b p f. if step = ''upload'' then Inl (LibraryError step) else Inr ()),
     file_writer := (\<lambda>p. if step = ''writer'' then Inl (LibraryError step) else Inr ()),
     add_summary := (\<lambda>p s. if step = ''summary'' then Inl (LibraryError step) else Inr ()),
     writer_flush := (\<lambda>p. if step = ''flush'' then Inl (LibraryError step) else Inr ())\<rparr>"

subsection \<open>A dataset whose splits have different largest labels\<close>

definition uneven_libs :: "nat libs" where
  "uneven_libs = mock_libs\<lparr>
     mnist_load_data := Inr ((NDArray [3, 1] [0, 0, 0], [0, 1, 2]),
                             (NDArray [2, 1] [0, 0], [0, 1]))\<rparr>"

section \<open>Running statements\<close>

lemma bind_ret: "bind (ret x) f w = f x w"
  by (simp add: bind_def ret_def)

lemma ret_apply: "ret x w = (Inr x, w)"
  by (simp add: ret_def)

lemma bind_effect: "bind (effect g) f w = f () (g w)"
  by (simp add: bind_def effect_def)

lemma bind_lift: "bind (lift r) f w = (case r of Inl e \<Rightarrow> (Inl e, w) | Inr x \<Rightarrow> f x w)"
  by (simp add: bind_def lift_def split: sum.splits)

lemma bind_call:
  "bind (call ev r) f w =
     (case r of Inl e \<Rightarrow> (Inl e, w\<lparr>trace := trace w @ [ev]\<rparr>)
              | Inr x \<Rightarrow> f x (w\<lparr>trace := trace w @ [ev]\<rparr>))"
  by (simp add: bind_def call_def split: sum.splits)

lemma call_apply: "call ev r w = (r, w\<lparr>trace := trace w @ [ev]\<rparr>)"
  by (simp add: call_def)

lemma bind_assoc: "bind (bind m f) g = bind m (\<lambda>x. bind (f x) g)"
  by (auto simp: bind_def fun_eq_iff split: prod.splits sum.splits)

lemmas io_simps = bind_ret ret_apply bind_effect bind_lift bind_call call_apply bind_assoc
  LOGGER_info_def strftime_def m_save_def writer_add_summary_def

section \<open>Properties of preprocessing\<close>




lemma np_max_nonempty: "y \<noteq> [] \<Longrightarrow> \<exists>mx. np_max y = Inr mx"
  by (cases y) auto

lemma fold_max_mem: "fold max ls (a::int) \<in> insert a (set ls)"
proof (induction ls arbitrary: a)
  case Nil
  show ?case by simp
next
  case (Cons b ls)
  have ih: "fold max ls (max b a) \<in> insert (max b a) (set ls)" by (rule Cons.IH)
  have "max b a = a \<or> max b a = b" by (simp add: max_def)
  then show ?case
  proof
    assume "max b a = a"
    with ih show ?thesis by auto
  next
    assume "max b a = b"
    with ih show ?thesis by auto
  qed
qed

lemma np_max_mem: "np_max y = Inr mx \<Longrightarrow> mx \<in> set y"
  using fold_max_mem by (cases y) auto

lemma int64_wrap_nonneg:
  assumes "in_int64 v" and "0 \<le> int64_wrap (v + 1)"
  shows "int64_wrap (v + 1) = v + 1"
proof (cases "v + 1 < 2 ^ 63")
  case True
  then have "0 \<le> v + 1 + 2 ^ 63" and "v + 1 + 2 ^ 63 < (2 ^ 64 :: int)"
    using assms(1) by (simp_all add: in_int64_def)
  then have "(v + 1 + 2 ^ 63) mod 2 ^ 64 = v + 1 + 2 ^ 63" by simp
  then show ?thesis by (simp add: int64_wrap_def)
next
  case False
  then have "v + 1 = 2 ^ 63" using assms(1) by (simp add: in_int64_def)
  then have "int64_wrap (v + 1) = - (2 ^ 63)" by (simp add: int64_wrap_def)
  with assms(2) show ?thesis by simp
qed

text \<open>What \<open>to_categorical\<close> returns, when it returns.\<close>

lemma to_categorical_rows:
  assumes "to_categorical y = Inr cat" and "np_max y = Inr mx"
  shows "cat = map (\<lambda>l. (np_zeros_row (nat (mx + 1)))[column_index (mx + 1) l := 1]) y"
proof -
  from assms(1) have conv: "np_array_int y = Inr y"
    by (auto simp: to_categorical_def np_array_int_def split: if_splits)
  then have "in_int64 mx"
    using np_max_mem [OF assms(2)] by (auto simp: np_array_int_def split: if_splits)
  moreover from assms conv have nn: "0 \<le> int64_wrap (mx + 1)"
    by (auto simp: to_categorical_def Let_def split: if_splits)
  ultimately have w: "int64_wrap (mx + 1) = mx + 1" by (rule int64_wrap_nonneg)
  from assms conv show ?thesis
    by (auto simp: to_categorical_def Let_def w split: if_splits)
qed

lemma to_categorical_np_max: "to_categorical y = Inr cat \<Longrightarrow> \<exists>mx. np_max y = Inr mx"
  by (auto simp: to_categorical_def np_array_int_def split: sum.splits if_splits)





text \<open>
  C3. For every pixel of the input array whose value \<open>v\<close> satisfies \<open>0 \<le> v \<le> 255\<close>,
  the normalised array holds \<open>v / 255\<close> at the same position, and that value lies in
  \<open>[0, 1]\<close>; the shape of the array is kept.
\<close>

theorem preprocess_x_normalizes:
  assumes "i < length (data x)" and "0 \<le> data x ! i" and "data x ! i \<le> 255"
  shows "shape (preprocess_x x) = shape x
       \<and> length (data (preprocess_x x)) = length (data x)
       \<and> data (preprocess_x x) ! i = real_of_int (data x ! i) / 255
       \<and> 0 \<le> data (preprocess_x x) ! i \<and> data (preprocess_x x) ! i \<le> 1"
  using assms by (simp add: preprocess_x_def)

theorem preprocess_x_normalizes_witness:
  "data (preprocess_x (NDArray [2, 2] [0, 51, 128, 255])) ! 1 = 1 / 5
   \<and> data (preprocess_x (NDArray [2, 2] [0, 51, 128, 255])) ! 3 = 1
   \<and> 0 \<le> data (preprocess_x (NDArray [2, 2] [0, 51, 128, 255])) ! 2
   \<and> data (preprocess_x (NDArray [2, 2] [0, 51, 128, 255])) ! 2 \<le> 1"
  using preprocess_x_normalizes [of 1 "NDArray [2, 2] [0, 51, 128, 255]"]
        preprocess_x_normalizes [of 2 "NDArray [2, 2] [0, 51, 128, 255]"]
        preprocess_x_normalizes [of 3 "NDArray [2, 2] [0, 51, 128, 255]"]
  by simp





text \<open>
  At the largest 64-bit label the class count wraps to a negative number and
  \<^verbatim>\<open>np.zeros\<close> raises.
\<close>

lemma preprocess_y_wraps: "preprocess_y [9223372036854775807] = Inl ValueError"
  by (simp add: preprocess_y_def to_categorical_def np_array_int_def in_int64_def
      int64_wrap_def)

section \<open>Completed runs\<close>

lemma os_path_join_relative:
  "\<not> startswith_sep b \<Longrightarrow> os_path_join (Some dir) b = Inr (dir @ sep_after dir @ b)"
  by (simp add: os_path_join_def sep_after_def)

lemma os_path_join_Inr: "os_path_join jd b = Inr p \<Longrightarrow> \<exists>dir. jd = Some dir"
  by (cases jd) (simp_all add: os_path_join_def)

text \<open>
  A run that returns has gone through every statement: every library call returned,
  and the world has changed by exactly these calls, the saved file and the summary.
\<close>

lemma train_and_evaluate_completes:
  assumes "train_and_evaluate L tr te bucket prefix jd bs ep w = (Inr u, w')"
  shows "\<exists>logdir eval_path gcs m0 m1 m2 loss acc.
           os_path_join jd (''logs/scalars/'' @ time_strftime L ''%Y%m%d-%H%M%S'') = Inr logdir
         \<and> os_path_join jd ''accuracyMnist'' = Inr eval_path
         \<and> os_path_join (Some prefix)
              (''mnist_keras_'' @ time_strftime L ''%Y%m%d%H%M%S'' @ ''.h5'') = Inr gcs
         \<and> build_model L = Inr m0
         \<and> model_compile L m0 = Inr m1
         \<and> model_fit L m1 (fst tr) (snd tr) bs ep [TensorBoard logdir] = Inr m2
         \<and> model_evaluate L m2 (fst te) (snd te) = Inr (loss, acc)
         \<and> w' = w\<lparr>trace := trace w @ run_events bucket bs ep logdir gcs eval_path acc,
                 local_files := insert ''mymodel.h5'' (local_files w),
                 summaries := summaries w @ [(eval_path, ''accuracyMnist'', acc)]\<rparr>"
  using assms unfolding train_and_evaluate_def run_events_def
  by (cases tr; cases te) (auto simp: io_simps split: sum.splits prod.splits)

lemma mock_run:
  "train_and_evaluate mock_libs mock_train mock_test (Some ''bkt'') ''models'' (Some ''job'') 2 1
     empty_world = (Inr (), mock_final)"
  by (simp add: train_and_evaluate_def io_simps mock_libs_def mock_train_def mock_test_def
      empty_world_def mock_final_def mock_events_def os_path_join_def startswith_sep_def
      endswith_sep_def)

lemma mock_metric_contract:
  "\<forall>m x y loss acc. model_evaluate mock_libs m x y = Inr (loss, acc) \<longrightarrow> 0 \<le> acc \<and> acc \<le> 1"
  by (simp add: mock_libs_def)

text \<open>
  C1. Every run of \<open>train_and_evaluate\<close> that returns has handed exactly one scalar
  summary to a writer: its tag is \<open>accuracyMnist\<close>, its value is the accuracy that
  evaluating the fitted model on the test split returned, and the writer's directory
  is the job directory joined with \<open>accuracyMnist\<close>. The value lies in \<open>[0, 1]\<close>
  since the accuracy the evaluation returns does (the metric is a mean of 0/1 hits).
\<close>

theorem summary_written_once:
  assumes "train_and_evaluate L tr te bucket prefix jd bs ep w = (Inr u, w')"
    and "\<forall>m x y loss acc. model_evaluate L m x y = Inr (loss, acc) \<longrightarrow> 0 \<le> acc \<and> acc \<le> 1"
  shows "\<exists>dir evs m loss acc.
           jd = Some dir
         \<and> os_path_join jd ''accuracyMnist'' = Inr (dir @ sep_after dir @ ''accuracyMnist'')
         \<and> model_evaluate L m (fst te) (snd te) = Inr (loss, acc)
         \<and> summaries w' = summaries w @
              [(dir @ sep_after dir @ ''accuracyMnist'', ''accuracyMnist'', acc)]
         \<and> trace w' = trace w @ evs
         \<and> filter is_add_summary evs =
              [Add_summary (dir @ sep_after dir @ ''accuracyMnist'') [(''accuracyMnist'', acc)]]
         \<and> 0 \<le> acc \<and> acc \<le> 1"
proof -
  from train_and_evaluate_completes [OF assms(1)]
  obtain logdir eval_path gcs m2 loss acc where
    ep: "os_path_join jd ''accuracyMnist'' = Inr eval_path"
    and ev: "model_evaluate L m2 (fst te) (snd te) = Inr (loss, acc)"
    and w': "w' = w\<lparr>trace := trace w @ run_events bucket bs ep logdir gcs eval_path acc,
                 local_files := insert ''mymodel.h5'' (local_files w),
                 summaries := summaries w @ [(eval_path, ''accuracyMnist'', acc)]\<rparr>"
    by blast
  from os_path_join_Inr [OF ep] obtain dir where dir: "jd = Some dir" by blast
  have rel: "\<not> startswith_sep ''accuracyMnist''" by (simp add: startswith_sep_def)
  have path: "eval_path = dir @ sep_after dir @ ''accuracyMnist''"
    using ep os_path_join_relative [OF rel, of dir] dir by simp
  have range: "0 \<le> acc \<and> acc \<le> 1" using assms(2) ev by blast
  define evs where "evs = run_events bucket bs ep logdir gcs eval_path acc"
  have tr: "trace w' = trace w @ evs" by (simp add: w' evs_def)
  have flt: "filter is_add_summary evs = [Add_summary eval_path [(''accuracyMnist'', acc)]]"
    by (simp add: evs_def run_events_def)
  have sm: "summaries w' = summaries w @ [(eval_path, ''accuracyMnist'', acc)]"
    by (simp add: w')
  have jn: "os_path_join jd ''accuracyMnist'' = Inr (dir @ sep_after dir @ ''accuracyMnist'')"
    using ep path by simp
  show ?thesis
    apply (rule exI [of _ dir], rule exI [of _ evs], rule exI [of _ m2])
    apply (rule exI [of _ loss], rule exI [of _ acc])
    using dir jn ev sm tr flt range path by simp
qed

theorem summary_written_once_witness:
  "train_and_evaluate mock_libs mock_train mock_test (Some ''bkt'') ''models'' (Some ''job'') 2 1
     empty_world = (Inr (), mock_final)
   \<and> summaries mock_final = [(''job/accuracyMnist'', ''accuracyMnist'', 3 / 4)]
   \<and> filter is_add_summary (trace mock_final) =
        [Add_summary ''job/accuracyMnist'' [(''accuracyMnist'', 3 / 4)]]"
  using summary_written_once [OF mock_run mock_metric_contract] mock_run
  by (simp add: mock_final_def mock_events_def)

text \<open>
  C2. Every run of \<open>train_and_evaluate\<close> that returns has created the storage client
  once and called the upload exactly once: into the given bucket, from the local file,
  to the object path that joins the given prefix with the file name
  \<open>mnist_keras_\<close>, the clock's text for \<^verbatim>\<open>%Y%m%d%H%M%S\<close>, \<open>.h5\<close>.
\<close>

theorem model_uploaded_once:
  assumes "train_and_evaluate L tr te bucket prefix jd bs ep w = (Inr u, w')"
  shows "\<exists>evs fn.
           fn = ''mnist_keras_'' @ time_strftime L ''%Y%m%d%H%M%S'' @ ''.h5''
         \<and> os_path_join (Some prefix) fn = Inr (prefix @ sep_after prefix @ fn)
         \<and> trace w' = trace w @ evs
         \<and> filter is_upload evs =
              [Upload_from_filename bucket (prefix @ sep_after prefix @ fn) ''mymodel.h5'']
         \<and> count_list evs Storage_client = 1"
proof -
  define fn where "fn = ''mnist_keras_'' @ time_strftime L ''%Y%m%d%H%M%S'' @ ''.h5''"
  from train_and_evaluate_completes [OF assms]
  obtain logdir eval_path gcs acc where
    gcs: "os_path_join (Some prefix) fn = Inr gcs"
    and w': "w' = w\<lparr>trace := trace w @ run_events bucket bs ep logdir gcs eval_path acc,
                 local_files := insert ''mymodel.h5'' (local_files w),
                 summaries := summaries w @ [(eval_path, ''accuracyMnist'', acc)]\<rparr>"
    unfolding fn_def by blast
  have rel: "\<not> startswith_sep fn" by (simp add: startswith_sep_def fn_def)
  have path: "gcs = prefix @ sep_after prefix @ fn"
    using gcs os_path_join_relative [OF rel, of prefix] by simp
  define evs where "evs = run_events bucket bs ep logdir gcs eval_path acc"
  have tr: "trace w' = trace w @ evs" by (simp add: w' evs_def)
  have flt: "filter is_upload evs = [Upload_from_filename bucket gcs ''mymodel.h5'']"
    by (simp add: evs_def run_events_def)
  have cl: "count_list evs Storage_client = 1"
    by (simp add: evs_def run_events_def)
  show ?thesis
    apply (rule exI [of _ evs], rule exI [of _ fn])
    using gcs tr flt cl path fn_def by simp
qed

theorem model_uploaded_once_witness:
  "train_and_evaluate mock_libs mock_train mock_test (Some ''bkt'') ''models'' (Some ''job'') 2 1
     empty_world = (Inr (), mock_final)
   \<and> filter is_upload (trace mock_final) =
        [Upload_from_filename (Some ''bkt'') ''models/mnist_keras_20190301120005.h5''
           ''mymodel.h5'']
   \<and> count_list (trace mock_final) Storage_client = 1"
  using model_uploaded_once [OF mock_run] mock_run
  by (simp add: mock_final_def mock_events_def)

text \<open>
  C9. Every run of \<open>train_and_evaluate\<close> that returns has saved the model exactly once,
  to the file \<open>mymodel.h5\<close> whatever the arguments, and when the function returns the
  working directory holds that file together with every file it held before: nothing
  is deleted after the upload.
\<close>

theorem local_model_file_kept:
  assumes "train_and_evaluate L tr te bucket prefix jd bs ep w = (Inr u, w')"
  shows "\<exists>evs. trace w' = trace w @ evs
         \<and> filter is_save evs = [Model_save ''mymodel.h5'']
         \<and> ''mymodel.h5'' \<in> local_files w'
         \<and> local_files w' = insert ''mymodel.h5'' (local_files w)"
proof -
  from train_and_evaluate_completes [OF assms]
  obtain logdir eval_path gcs acc where
    w': "w' = w\<lparr>trace := trace w @ run_events bucket bs ep logdir gcs eval_path acc,
                 local_files := insert ''mymodel.h5'' (local_files w),
                 summaries := summaries w @ [(eval_path, ''accuracyMnist'', acc)]\<rparr>"
    by blast
  define evs where "evs = run_events bucket bs ep logdir gcs eval_path acc"
  have tr: "trace w' = trace w @ evs" by (simp add: w' evs_def)
  have flt: "filter is_save evs = [Model_save ''mymodel.h5'']"
    by (simp add: evs_def run_events_def)
  have fs: "local_files w' = insert ''mymodel.h5'' (local_files w)" by (simp add: w')
  show ?thesis
    apply (rule exI [of _ evs])
    using tr flt fs by simp
qed

theorem local_model_file_kept_witness:
  "train_and_evaluate mock_libs mock_train mock_test (Some ''bkt'') ''models'' (Some ''job'') 2 1
     empty_world = (Inr (), mock_final)
   \<and> filter is_save (trace mock_final) = [Model_save ''mymodel.h5'']
   \<and> ''mymodel.h5'' \<in> local_files mock_final"
  using local_model_file_kept [OF mock_run] mock_run
  by (simp add: mock_final_def mock_events_def)

section \<open>The command line and the job directory\<close>

lemma prepare_data_trace:
  "prepare_data L w = (r, w') \<Longrightarrow> w' = w\<lparr>trace := trace w @ prepare_events\<rparr>"
  unfolding prepare_data_def prepare_events_def
  by (auto simp: io_simps split: sum.splits prod.splits)

lemma main_parse_fails: "parse_args L argv = Inl e \<Longrightarrow> main L argv w = (Inl e, w)"
  by (simp add: main_def bind_lift)

lemma main_prepare_fails:
  "parse_args L argv = Inr ns \<Longrightarrow> prepare_data L w = (Inl e, w1) \<Longrightarrow> main L argv w = (Inl e, w1)"
  by (simp add: main_def bind_lift) (simp add: bind_def)

lemma main_prepare_ok:
  "parse_args L argv = Inr ns \<Longrightarrow> prepare_data L w = (Inr (tr, te), w1) \<Longrightarrow>
   main L argv w =
     train_and_evaluate L tr te (output_bucket ns) (output_path ns) (job_dir ns) (batch_size ns)
       (epochs ns) w1"
  by (simp add: main_def bind_lift) (simp add: bind_def)

lemma train_and_evaluate_None:
  "train_and_evaluate L tr te bucket prefix None bs ep w =
     (Inl TypeError, w\<lparr>trace := trace w @ [Time_strftime ''%Y%m%d-%H%M%S'']\<rparr>)"
  by (simp add: train_and_evaluate_def io_simps os_path_join_def)

lemma store_job_dir: "store L d v ns = Inr ns' \<Longrightarrow> d \<noteq> Job_dir \<Longrightarrow> job_dir ns' = job_dir ns"
  by (cases d) (auto split: option.splits)

lemma consume_job_dir:
  "consume L argv ns seen extras = Inr (ns', seen', extras') \<Longrightarrow>
   \<forall>v. Opt Job_dir v \<notin> set argv \<Longrightarrow> job_dir ns' = job_dir ns"
proof (induction L argv ns seen extras rule: consume.induct)
  case (5 L d v rest ns seen extras)
  from "5.prems"(1) obtain ns1 where st: "store L d v ns = Inr ns1"
    and rest: "consume L rest ns1 (d # seen) extras = Inr (ns', seen', extras')"
    by (auto split: sum.splits)
  from "5.prems"(2) have d: "d \<noteq> Job_dir" and nj: "\<forall>v. Opt Job_dir v \<notin> set rest" by auto
  have "job_dir ns' = job_dir ns1" using "5.IH" [OF st rest nj] .
  then show ?case using store_job_dir [OF st d] by simp
qed auto

lemma parse_args_job_dir:
  assumes "parse_args L argv = Inr ns" and "\<forall>v. Opt Job_dir v \<notin> set argv"
  shows "job_dir ns = None"
proof -
  from assms(1) obtain seen extras where "consume L argv defaults [] [] = Inr (ns, seen, extras)"
    by (auto simp: parse_args_def split: sum.splits prod.splits if_splits)
  from consume_job_dir [OF this assms(2)] show ?thesis by (simp add: defaults_def)
qed

lemma consume_exit:
  "consume L argv ns seen extras = Inl e \<Longrightarrow>
   e = SystemExit 2 \<or> (e = SystemExit 0 \<and> Help \<in> set argv)"
proof (induction L argv ns seen extras rule: consume.induct)
  case (5 L d v rest ns seen extras)
  show ?case
  proof (cases "store L d v ns")
    case (Inl e')
    then have "e' = SystemExit 2" by (cases d) (auto split: option.splits)
    with Inl "5.prems" show ?thesis by simp
  next
    case (Inr ns1)
    with "5.prems" have "consume L rest ns1 (d # seen) extras = Inl e" by simp
    from "5.IH" [OF Inr this] show ?thesis by auto
  qed
qed auto

lemma parse_args_exit:
  "parse_args L argv = Inl e \<Longrightarrow> e = SystemExit 2 \<or> (e = SystemExit 0 \<and> Help \<in> set argv)"
  by (auto simp: parse_args_def split: sum.splits prod.splits if_splits dest: consume_exit)

lemma consume_seen:
  "consume L argv ns seen extras = Inr (ns', seen', extras') \<Longrightarrow> d \<in> set seen' \<Longrightarrow>
   d \<in> set seen \<or> (\<exists>v. Opt d v \<in> set argv)"
proof (induction L argv ns seen extras rule: consume.induct)
  case (5 L d' v rest ns seen extras)
  from "5.prems"(1) obtain ns1 where st: "store L d' v ns = Inr ns1"
    and rest: "consume L rest ns1 (d' # seen) extras = Inr (ns', seen', extras')"
    by (auto split: sum.splits)
  from "5.IH" [OF st rest "5.prems"(2)] show ?case by auto
qed auto

lemma store_output_path:
  "store L d v ns = Inr ns' \<Longrightarrow>
   output_path ns' = (if d = Output_path then v else output_path ns)"
  by (cases d) (auto split: option.splits)

lemma consume_output_path:
  "consume L argv ns seen extras = Inr (ns', seen', extras') \<Longrightarrow>
   (\<exists>v. Opt Output_path v \<in> set argv \<and> output_path ns' = v)
   \<or> ((\<forall>v. Opt Output_path v \<notin> set argv) \<and> output_path ns' = output_path ns)"
proof (induction L argv ns seen extras rule: consume.induct)
  case (5 L d v rest ns seen extras)
  from "5.prems"(1) obtain ns1 where st: "store L d v ns = Inr ns1"
    and rest: "consume L rest ns1 (d # seen) extras = Inr (ns', seen', extras')"
    by (auto split: sum.splits)
  from "5.IH" [OF st rest] store_output_path [OF st] show ?case
    by (cases "d = Output_path") auto
qed auto

lemma parse_args_required:
  assumes "parse_args L argv = Inr ns"
  shows "(\<exists>v. Opt Output_bucket v \<in> set argv)
       \<and> (\<exists>v. Opt Output_path v \<in> set argv \<and> output_path ns = v)"
proof -
  from assms obtain seen extras where
    c: "consume L argv defaults [] [] = Inr (ns, seen, extras)"
    and b: "Output_bucket \<in> set seen" and p: "Output_path \<in> set seen"
    by (auto simp: parse_args_def split: sum.splits prod.splits if_splits)
  from consume_seen [OF c b] have 1: "\<exists>v. Opt Output_bucket v \<in> set argv" by simp
  from consume_seen [OF c p] have 2: "\<exists>v. Opt Output_path v \<in> set argv" by simp
  from consume_output_path [OF c] 2
  have 3: "\<exists>v. Opt Output_path v \<in> set argv \<and> output_path ns = v" by blast
  from 1 3 show ?thesis by simp
qed

text \<open>
  C10. Called with \<open>None\<close> for the job directory, \<open>train_and_evaluate\<close> raises
  TypeError when it joins the log directory: the clock has been read and nothing else
  has been called, so no model is built, trained, saved or uploaded. A command line
  without \<^verbatim>\<open>--job-dir\<close> leaves the job directory \<open>None\<close>, so every run of the job on such
  a command line raises: at the parser, in \<open>prepare_data\<close>, or else with this TypeError,
  and the only calls made are those of \<open>prepare_data\<close> and the clock.
\<close>

theorem job_dir_none_fails_before_training:
  "train_and_evaluate L tr te bucket prefix None bs ep w =
     (Inl TypeError, w\<lparr>trace := trace w @ [Time_strftime ''%Y%m%d-%H%M%S'']\<rparr>)
   \<and> ((\<forall>v. Opt Job_dir v \<notin> set argv) \<longrightarrow>
        (\<forall>ns. parse_args L argv = Inr ns \<longrightarrow> job_dir ns = None)
      \<and> (\<exists>e evs. main L argv w = (Inl e, w\<lparr>trace := trace w @ evs\<rparr>)
            \<and> (evs = [] \<or> evs = prepare_events
               \<or> (evs = prepare_events @ [Time_strftime ''%Y%m%d-%H%M%S''] \<and> e = TypeError)))
      \<and> (\<forall>ns d w1. parse_args L argv = Inr ns \<and> prepare_data L w = (Inr d, w1) \<longrightarrow>
            main L argv w =
              (Inl TypeError,
               w\<lparr>trace := trace w @ prepare_events @ [Time_strftime ''%Y%m%d-%H%M%S'']\<rparr>)))"
proof (intro conjI impI allI)
  show "train_and_evaluate L tr te bucket prefix None bs ep w =
     (Inl TypeError, w\<lparr>trace := trace w @ [Time_strftime ''%Y%m%d-%H%M%S'']\<rparr>)"
    by (rule train_and_evaluate_None)
next
  fix ns
  assume "\<forall>v. Opt Job_dir v \<notin> set argv" and "parse_args L argv = Inr ns"
  then show "job_dir ns = None" using parse_args_job_dir by blast
next
  fix ns d w1
  assume nj: "\<forall>v. Opt Job_dir v \<notin> set argv"
    and "parse_args L argv = Inr ns \<and> prepare_data L w = (Inr d, w1)"
  then have p: "parse_args L argv = Inr ns" and pd: "prepare_data L w = (Inr d, w1)" by simp_all
  obtain tr' te' where d: "d = (tr', te')" by (cases d)
  have w1: "w1 = w\<lparr>trace := trace w @ prepare_events\<rparr>" using prepare_data_trace [OF pd] .
  show "main L argv w =
      (Inl TypeError, w\<lparr>trace := trace w @ prepare_events @ [Time_strftime ''%Y%m%d-%H%M%S'']\<rparr>)"
    using main_prepare_ok [OF p pd [unfolded d]] parse_args_job_dir [OF p nj]
    by (simp add: train_and_evaluate_None w1)
next
  assume nj: "\<forall>v. Opt Job_dir v \<notin> set argv"
  show "\<exists>e evs. main L argv w = (Inl e, w\<lparr>trace := trace w @ evs\<rparr>)
            \<and> (evs = [] \<or> evs = prepare_events
               \<or> (evs = prepare_events @ [Time_strftime ''%Y%m%d-%H%M%S''] \<and> e = TypeError))"
  proof (cases "parse_args L argv")
    case (Inl e)
    have "main L argv w = (Inl e, w\<lparr>trace := trace w @ []\<rparr>)"
      using main_parse_fails [OF Inl] by simp
    then show ?thesis by blast
  next
    case (Inr ns)
    obtain r w1 where pd: "prepare_data L w = (r, w1)" by (cases "prepare_data L w")
    have w1: "w1 = w\<lparr>trace := trace w @ prepare_events\<rparr>" using prepare_data_trace [OF pd] .
    show ?thesis
    proof (cases r)
      case (Inl e)
      have "main L argv w = (Inl e, w\<lparr>trace := trace w @ prepare_events\<rparr>)"
        using main_prepare_fails [OF Inr pd [unfolded Inl]] w1 by simp
      then show ?thesis by blast
    next
      case r: (Inr d)
      obtain tr' te' where d: "d = (tr', te')" by (cases d)
      have "main L argv w =
          (Inl TypeError,
           w\<lparr>trace := trace w @ prepare_events @ [Time_strftime ''%Y%m%d-%H%M%S'']\<rparr>)"
        using main_prepare_ok [OF Inr pd [unfolded r d]] parse_args_job_dir [OF Inr nj]
        by (simp add: train_and_evaluate_None w1)
      then show ?thesis by blast
    qed
  qed
qed

lemma mock_parse_no_job_dir:
  "parse_args mock_libs [Opt Output_bucket ''bkt'', Opt Output_path ''models''] =
     Inr \<lparr>output_bucket = Some ''bkt'', output_path = ''models'', batch_size = 64, epochs = 30,
          job_dir = None\<rparr>"
  by (simp add: parse_args_def defaults_def)

lemma mock_prepare_data:
  "prepare_data mock_libs empty_world =
     (Inr (mock_train, mock_test), empty_world\<lparr>trace := prepare_events\<rparr>)"
  by (simp add: prepare_data_def io_simps mock_libs_def mock_train_def mock_test_def
      empty_world_def prepare_events_def preprocess_x_def preprocess_y_def to_categorical_def
      np_array_int_def in_int64_def int64_wrap_def np_zeros_row_def column_index_def
      numeral_2_eq_2)

theorem job_dir_none_fails_before_training_witness:
  "parse_args mock_libs [Opt Output_bucket ''bkt'', Opt Output_path ''models''] =
     Inr \<lparr>output_bucket = Some ''bkt'', output_path = ''models'', batch_size = 64, epochs = 30,
          job_dir = None\<rparr>
   \<and> main mock_libs [Opt Output_bucket ''bkt'', Opt Output_path ''models''] empty_world =
       (Inl TypeError,
        empty_world\<lparr>trace := prepare_events @ [Time_strftime ''%Y%m%d-%H%M%S'']\<rparr>)"
proof -
  have nj: "\<forall>v. Opt Job_dir v \<notin> set [Opt Output_bucket ''bkt'', Opt Output_path ''models'']"
    by simp
  show ?thesis
    using job_dir_none_fails_before_training
      [of mock_libs _ _ _ _ _ _ empty_world "[Opt Output_bucket ''bkt'', Opt Output_path ''models'']"]
      nj mock_parse_no_job_dir mock_prepare_data
    by (simp add: empty_world_def)
qed

text \<open>
  C7, amended. On a command line without \<^verbatim>\<open>--output-bucket\<close> or without
  \<^verbatim>\<open>--output-path\<close>, \<^verbatim>\<open>parse_args\<close> does not return: the process exits before
  \<open>prepare_data\<close> or any other call is made, with status 2 (a parse error), or with
  status 0 when the command line asks for help. Whenever \<^verbatim>\<open>parse_args\<close> returns, the
  output path is a value given on the command line, never the declared default.
\<close>

theorem required_options_enforced:
  assumes "(\<forall>v. Opt Output_bucket v \<notin> set argv) \<or> (\<forall>v. Opt Output_path v \<notin> set argv)"
  shows "(main L argv w = (Inl (SystemExit 2), w)
          \<or> (main L argv w = (Inl (SystemExit 0), w) \<and> Help \<in> set argv))
       \<and> (\<forall>ns. parse_args L argv' = Inr ns \<longrightarrow>
            (\<exists>v. Opt Output_path v \<in> set argv' \<and> output_path ns = v))"
proof (intro conjI allI impI)
  fix ns
  assume "parse_args L argv' = Inr ns"
  from parse_args_required [OF this]
  show "\<exists>v. Opt Output_path v \<in> set argv' \<and> output_path ns = v" by simp
next
  show "main L argv w = (Inl (SystemExit 2), w)
          \<or> (main L argv w = (Inl (SystemExit 0), w) \<and> Help \<in> set argv)"
  proof (cases "parse_args L argv")
    case (Inl e)
    from parse_args_exit [OF Inl] main_parse_fails [OF Inl, of w] show ?thesis by auto
  next
    case (Inr ns)
    from parse_args_required [OF Inr] assms show ?thesis by blast
  qed
qed

theorem required_options_enforced_witness:
  "main mock_libs [Opt Output_bucket ''bkt'', Opt Batch_size ''2''] empty_world =
     (Inl (SystemExit 2), empty_world)
   \<and> Help \<notin> set [Opt Output_bucket ''bkt'', Opt Batch_size ''2'']"
proof -
  have om: "(\<forall>v. Opt Output_bucket v \<notin> set [Opt Output_bucket ''bkt'', Opt Batch_size ''2''])
          \<or> (\<forall>v. Opt Output_path v \<notin> set [Opt Output_bucket ''bkt'', Opt Batch_size ''2''])"
    by simp
  show ?thesis
    using required_options_enforced [OF om, of mock_libs empty_world] by simp
qed

theorem help_exits_with_status_zero:
  "main mock_libs [Help] empty_world = (Inl (SystemExit 0), empty_world)
   \<and> main mock_libs [Help] empty_world \<noteq> (Inl (SystemExit 2), empty_world)"
  by (simp add: main_def bind_lift parse_args_def)

section \<open>The two splits\<close>

lemma prepare_data_eq:
  "prepare_data L w =
     (case mnist_load_data L of
        Inl e \<Rightarrow> (Inl e, w\<lparr>trace := trace w @ prepare_events\<rparr>)
      | Inr ((x_train, y_train), (x_test, y_test)) \<Rightarrow>
          (case preprocess_y y_train of
             Inl e \<Rightarrow> (Inl e, w\<lparr>trace := trace w @ prepare_events\<rparr>)
           | Inr y_train_cat \<Rightarrow>
               (case preprocess_y y_test of
                  Inl e \<Rightarrow> (Inl e, w\<lparr>trace := trace w @ prepare_events\<rparr>)
                | Inr y_test_cat \<Rightarrow>
                    (Inr ((preprocess_x x_train, y_train_cat), (preprocess_x x_test, y_test_cat)),
                     w\<lparr>trace := trace w @ prepare_events\<rparr>))))"
  by (simp add: prepare_data_def prepare_events_def io_simps split: sum.splits prod.splits)

text \<open>
  C6, amended. \<open>prepare_data\<close> applies \<open>_preprocess_x\<close> to the features and
  \<open>_preprocess_y\<close> to the labels of both splits. Equal raw feature values give equal
  normalised values in the two splits. Equal raw labels give equal encoded rows in the
  two splits when the two label arrays have the same largest label: each call of
  \<open>to_categorical\<close> sizes its rows by the largest label of the array it is given.
\<close>

theorem same_preprocessing_on_both_splits:
  assumes "mnist_load_data L = Inr ((x_train, y_train), (x_test, y_test))"
    and "prepare_data L w = (Inr ((xn_train, yc_train), (xn_test, yc_test)), w')"
  shows "xn_train = preprocess_x x_train \<and> xn_test = preprocess_x x_test
       \<and> preprocess_y y_train = Inr yc_train \<and> preprocess_y y_test = Inr yc_test
       \<and> (\<forall>i j. i < length (data x_train) \<and> j < length (data x_test)
              \<and> data x_train ! i = data x_test ! j
              \<longrightarrow> data xn_train ! i = data xn_test ! j)
       \<and> (np_max y_train = np_max y_test \<longrightarrow>
            (\<forall>i j. i < length y_train \<and> j < length y_test \<and> y_train ! i = y_test ! j
               \<longrightarrow> yc_train ! i = yc_test ! j))"
proof -
  from assms have xs: "xn_train = preprocess_x x_train" "xn_test = preprocess_x x_test"
    and ys: "preprocess_y y_train = Inr yc_train" "preprocess_y y_test = Inr yc_test"
    by (auto simp: prepare_data_eq split: sum.splits)
  have feat: "\<forall>i j. i < length (data x_train) \<and> j < length (data x_test)
              \<and> data x_train ! i = data x_test ! j
              \<longrightarrow> data xn_train ! i = data xn_test ! j"
    by (simp add: xs preprocess_x_def)
  have lab: "np_max y_train = np_max y_test \<longrightarrow>
            (\<forall>i j. i < length y_train \<and> j < length y_test \<and> y_train ! i = y_test ! j
               \<longrightarrow> yc_train ! i = yc_test ! j)"
  proof
    assume same: "np_max y_train = np_max y_test"
    from ys have tc: "to_categorical y_train = Inr yc_train" "to_categorical y_test = Inr yc_test"
      by (simp_all add: preprocess_y_def)
    from to_categorical_np_max [OF tc(1)] obtain mx where mx: "np_max y_train = Inr mx" by blast
    with same have mx': "np_max y_test = Inr mx" by simp
    show "\<forall>i j. i < length y_train \<and> j < length y_test \<and> y_train ! i = y_test ! j
               \<longrightarrow> yc_train ! i = yc_test ! j"
      by (simp add: to_categorical_rows [OF tc(1) mx] to_categorical_rows [OF tc(2) mx'])
  qed
  from xs ys feat lab show ?thesis by blast
qed

lemma mock_load:
  "mnist_load_data mock_libs = Inr ((NDArray [2, 1, 2] [0, 255, 51, 102], [1, 0]),
                                    (NDArray [1, 1, 2] [204, 153], [1]))"
  by (simp add: mock_libs_def)

theorem same_preprocessing_on_both_splits_witness:
  "prepare_data mock_libs empty_world =
     (Inr (mock_train, mock_test), empty_world\<lparr>trace := prepare_events\<rparr>)
   \<and> np_max [1, 0] = np_max [1]
   \<and> snd mock_train ! 0 = snd mock_test ! 0"
proof -
  have pd: "prepare_data mock_libs empty_world =
     (Inr ((fst mock_train, snd mock_train), (fst mock_test, snd mock_test)),
      empty_world\<lparr>trace := prepare_events\<rparr>)"
    using mock_prepare_data by simp
  have mx: "np_max [1, 0] = np_max [1]" by simp
  show ?thesis
    using same_preprocessing_on_both_splits [OF mock_load pd] mx mock_prepare_data
    by (simp add: mock_train_def mock_test_def)
qed

theorem uneven_splits_encode_differently:
  "prepare_data uneven_libs empty_world =
     (Inr ((NDArray [3, 1] [0, 0, 0], [[1, 0, 0], [0, 1, 0], [0, 0, 1]]),
           (NDArray [2, 1] [0, 0], [[1, 0], [0, 1]])),
      empty_world\<lparr>trace := prepare_events\<rparr>)
   \<and> [0, 1, 2 :: int] ! 0 = [0, 1] ! 0
   \<and> [[1, 0, 0], [0, 1, 0], [0, 0, 1 :: real]] ! 0 \<noteq> [[1, 0], [0, 1]] ! 0"
  by (simp add: prepare_data_eq uneven_libs_def mock_libs_def empty_world_def preprocess_x_def
      preprocess_y_def to_categorical_def np_array_int_def in_int64_def int64_wrap_def
      np_zeros_row_def column_index_def numeral_2_eq_2 numeral_3_eq_3)

section \<open>Runs that fail\<close>

text \<open>
  \<open>prepare_data\<close> raises what the download or either label encoding raises, after
  its two calls.
\<close>

lemma prepare_data_fails:
  "(mnist_load_data L = Inl e \<longrightarrow>
      prepare_data L w = (Inl e, w\<lparr>trace := trace w @ prepare_events\<rparr>))
   \<and> (\<forall>x_train y_train x_test y_test.
        mnist_load_data L = Inr ((x_train, y_train), (x_test, y_test)) \<longrightarrow>
          (preprocess_y y_train = Inl e \<longrightarrow>
             prepare_data L w = (Inl e, w\<lparr>trace := trace w @ prepare_events\<rparr>))
        \<and> (\<forall>c. preprocess_y y_train = Inr c \<and> preprocess_y y_test = Inl e \<longrightarrow>
             prepare_data L w = (Inl e, w\<lparr>trace := trace w @ prepare_events\<rparr>)))"
  by (simp add: prepare_data_eq)

lemma main_fails:
  "(parse_args L argv = Inl e \<longrightarrow> main L argv w = (Inl e, w))
   \<and> (\<forall>ns. parse_args L argv = Inr ns \<longrightarrow>
        (\<forall>w1. prepare_data L w = (Inl e, w1) \<longrightarrow> main L argv w = (Inl e, w1))
      \<and> (\<forall>tr te w1 w2.
           prepare_data L w = (Inr (tr, te), w1)
           \<and> train_and_evaluate L tr te (output_bucket ns) (output_path ns) (job_dir ns)
               (batch_size ns) (epochs ns) w1 = (Inl e, w2)
           \<longrightarrow> main L argv w = (Inl e, w2)))"
proof (intro conjI impI allI)
  assume "parse_args L argv = Inl e"
  then show "main L argv w = (Inl e, w)" by (rule main_parse_fails)
next
  fix ns w1
  assume "parse_args L argv = Inr ns" and "prepare_data L w = (Inl e, w1)"
  then show "main L argv w = (Inl e, w1)" by (rule main_prepare_fails)
next
  fix ns tr te w1 w2
  assume p: "parse_args L argv = Inr ns"
    and "prepare_data L w = (Inr (tr, te), w1)
           \<and> train_and_evaluate L tr te (output_bucket ns) (output_path ns) (job_dir ns)
               (batch_size ns) (epochs ns) w1 = (Inl e, w2)"
  then show "main L argv w = (Inl e, w2)"
    using main_prepare_ok [OF p, of w tr te w1] by simp
qed

text \<open>
  C8. Neither \<open>prepare_data\<close> nor \<open>train_and_evaluate\<close> handles an exception, and
  neither does \<open>main\<close>. Every statement that can raise is covered, in call order:
  the download and the two label encodings in \<open>prepare_data\<close>; in
  \<open>train_and_evaluate\<close> the join on the job directory, \<open>build_model\<close>, compile,
  fit, evaluate, the local save, the storage client, the upload, the summary writer,
  handing it the summary, and the flush; in \<open>main\<close> the parser and the two functions.
  When one of them raises \<open>e\<close> after the earlier ones returned, the outcome is \<open>e\<close>
  itself; the calls made are those up to the failing one, each made once, and none
  after it; the files and summaries are those the statements before it left.
\<close>

theorem failures_propagate:
  "((mnist_load_data L = Inl e \<longrightarrow>
      prepare_data L w = (Inl e, w\<lparr>trace := trace w @ prepare_events\<rparr>))
   \<and> (\<forall>x_train y_train x_test y_test.
        mnist_load_data L = Inr ((x_train, y_train), (x_test, y_test)) \<longrightarrow>
          (preprocess_y y_train = Inl e \<longrightarrow>
             prepare_data L w = (Inl e, w\<lparr>trace := trace w @ prepare_events\<rparr>))
        \<and> (\<forall>c. preprocess_y y_train = Inr c \<and> preprocess_y y_test = Inl e \<longrightarrow>
             prepare_data L w = (Inl e, w\<lparr>trace := trace w @ prepare_events\<rparr>))))
   \<and> ((parse_args L argv = Inl e \<longrightarrow> main L argv w = (Inl e, w))
   \<and> (\<forall>ns. parse_args L argv = Inr ns \<longrightarrow>
        (\<forall>w1. prepare_data L w = (Inl e, w1) \<longrightarrow> main L argv w = (Inl e, w1))
      \<and> (\<forall>tr te w1 w2.
           prepare_data L w = (Inr (tr, te), w1)
           \<and> train_and_evaluate L tr te (output_bucket ns) (output_path ns) (job_dir ns)
               (batch_size ns) (epochs ns) w1 = (Inl e, w2)
           \<longrightarrow> main L argv w = (Inl e, w2))))
   \<and> (jd = None \<longrightarrow>
      train_and_evaluate L tr te bucket prefix jd bs ep w =
        (Inl TypeError, w\<lparr>trace := trace w @ [Time_strftime ''%Y%m%d-%H%M%S'']\<rparr>))
   \<and> (\<forall>dir logdir gcs eval_path.
        jd = Some dir
        \<and> logdir = dir @ sep_after dir @ ''logs/scalars/'' @ time_strftime L ''%Y%m%d-%H%M%S''
        \<and> gcs = prefix @ sep_after prefix @
                ''mnist_keras_'' @ time_strftime L ''%Y%m%d%H%M%S'' @ ''.h5''
        \<and> eval_path = dir @ sep_after dir @ ''accuracyMnist'' \<longrightarrow>
        (build_model L = Inl e \<longrightarrow>
           train_and_evaluate L tr te bucket prefix jd bs ep w =
             (Inl e, w\<lparr>trace := trace w @
                take 3 (setup_events bucket bs ep logdir gcs eval_path)\<rparr>))
      \<and> (\<forall>m0. build_model L = Inr m0 \<longrightarrow>
          (model_compile L m0 = Inl e \<longrightarrow>
             train_and_evaluate L tr te bucket prefix jd bs ep w =
               (Inl e, w\<lparr>trace := trace w @
                  take 4 (setup_events bucket bs ep logdir gcs eval_path)\<rparr>))
        \<and> (\<forall>m1. model_compile L m0 = Inr m1 \<longrightarrow>
            (model_fit L m1 (fst tr) (snd tr) bs ep [TensorBoard logdir] = Inl e \<longrightarrow>
               train_and_evaluate L tr te bucket prefix jd bs ep w =
                 (Inl e, w\<lparr>trace := trace w @
                    take 5 (setup_events bucket bs ep logdir gcs eval_path)\<rparr>))
          \<and> (\<forall>m2. model_fit L m1 (fst tr) (snd tr) bs ep [TensorBoard logdir] = Inr m2 \<longrightarrow>
              (model_evaluate L m2 (fst te) (snd te) = Inl e \<longrightarrow>
                 train_and_evaluate L tr te bucket prefix jd bs ep w =
                   (Inl e, w\<lparr>trace := trace w @
                      take 6 (setup_events bucket bs ep logdir gcs eval_path)\<rparr>))
            \<and> (\<forall>loss acc. model_evaluate L m2 (fst te) (snd te) = Inr (loss, acc) \<longrightarrow>
                (model_save L m2 ''mymodel.h5'' = Inl e \<longrightarrow>
                   train_and_evaluate L tr te bucket prefix jd bs ep w =
                     (Inl e, w\<lparr>trace := trace w @
                        take 7 (setup_events bucket bs ep logdir gcs eval_path)\<rparr>))
              \<and> (model_save L m2 ''mymodel.h5'' = Inr () \<longrightarrow>
                  (storage_client L = Inl e \<longrightarrow>
                     train_and_evaluate L tr te bucket prefix jd bs ep w =
                       (Inl e, w\<lparr>trace := trace w @
                          take 9 (setup_events bucket bs ep logdir gcs eval_path),
                          local_files := insert ''mymodel.h5'' (local_files w)\<rparr>))
                \<and> (storage_client L = Inr () \<longrightarrow>
                    (upload_from_filename L bucket gcs ''mymodel.h5'' = Inl e \<longrightarrow>
                       train_and_evaluate L tr te bucket prefix jd bs ep w =
                         (Inl e, w\<lparr>trace := trace w @
                            take 11 (setup_events bucket bs ep logdir gcs eval_path),
                            local_files := insert ''mymodel.h5'' (local_files w)\<rparr>))
                  \<and> (upload_from_filename L bucket gcs ''mymodel.h5'' = Inr () \<longrightarrow>
                      (file_writer L eval_path = Inl e \<longrightarrow>
                         train_and_evaluate L tr te bucket prefix jd bs ep w =
                           (Inl e, w\<lparr>trace := trace w @
                              setup_events bucket bs ep logdir gcs eval_path,
                              local_files := insert ''mymodel.h5'' (local_files w)\<rparr>))
                    \<and> (file_writer L eval_path = Inr () \<longrightarrow>
                        (add_summary L eval_path [(''accuracyMnist'', acc)] = Inl e \<longrightarrow>
                           train_and_evaluate L tr te bucket prefix jd bs ep w =
                             (Inl e, w\<lparr>trace := trace w @
                                setup_events bucket bs ep logdir gcs eval_path @
                                [Add_summary eval_path [(''accuracyMnist'', acc)]],
                                local_files := insert ''mymodel.h5'' (local_files w)\<rparr>))
                      \<and> (add_summary L eval_path [(''accuracyMnist'', acc)] = Inr ()
                         \<and> writer_flush L eval_path = Inl e \<longrightarrow>
                           train_and_evaluate L tr te bucket prefix jd bs ep w =
                             (Inl e, w\<lparr>trace := trace w @
                                run_events bucket bs ep logdir gcs eval_path acc,
                                local_files := insert ''mymodel.h5'' (local_files w),
                                summaries := summaries w @
                                  [(eval_path, ''accuracyMnist'', acc)]\<rparr>)))))))))))"
  apply (rule conjI [OF prepare_data_fails conjI [OF main_fails]])
  apply (cases tr; cases te)
  apply (intro conjI impI allI)
  apply (simp_all add: train_and_evaluate_def io_simps os_path_join_relative startswith_sep_def
      setup_events_def run_events_def)
  apply (simp add: os_path_join_def)
  done

lemma mock_setup_events:
  "setup_events (Some ''bkt'') 2 1 ''job/logs/scalars/20190301-120000''
     ''models/mnist_keras_20190301120005.h5'' ''job/accuracyMnist'' = take 13 mock_events"
  by (simp add: setup_events_def mock_events_def)

theorem failures_propagate_witness:
  "prepare_data (failing_libs ''download'') empty_world =
     (Inl (LibraryError ''download''), empty_world\<lparr>trace := prepare_events\<rparr>)
   \<and> prepare_data (failing_libs ''labels'') empty_world =
     (Inl ValueError, empty_world\<lparr>trace := prepare_events\<rparr>)
   \<and> train_and_evaluate (failing_libs ''build'') mock_train mock_test (Some ''bkt'') ''models''
       (Some ''job'') 2 1 empty_world =
     (Inl (LibraryError ''build''), empty_world\<lparr>trace := take 3 mock_events\<rparr>)
   \<and> train_and_evaluate (failing_libs ''evaluate'') mock_train mock_test (Some ''bkt'') ''models''
       (Some ''job'') 2 1 empty_world =
     (Inl (LibraryError ''evaluate''), empty_world\<lparr>trace := take 6 mock_events\<rparr>)
   \<and> train_and_evaluate (failing_libs ''client'') mock_train mock_test (Some ''bkt'') ''models''
       (Some ''job'') 2 1 empty_world =
     (Inl (LibraryError ''client''),
      empty_world\<lparr>trace := take 9 mock_events, local_files := {''mymodel.h5''}\<rparr>)
   \<and> train_and_evaluate (failing_libs ''upload'') mock_train mock_test (Some ''bkt'') ''models''
       (Some ''job'') 2 1 empty_world =
     (Inl (LibraryError ''upload''),
      empty_world\<lparr>trace := take 11 mock_events, local_files := {''mymodel.h5''}\<rparr>)
   \<and> train_and_evaluate (failing_libs ''summary'') mock_train mock_test (Some ''bkt'') ''models''
       (Some ''job'') 2 1 empty_world =
     (Inl (LibraryError ''summary''),
      empty_world\<lparr>trace := take 14 mock_events, local_files := {''mymodel.h5''}\<rparr>)"
proof -
  note ev = failing_libs_def mock_libs_def empty_world_def sep_after_def endswith_sep_def
    setup_events_def mock_events_def
  have quarter: "\<exists>loss::real. loss * 4 = 1" by (rule exI [of _ "1 / 4"]) simp
  have three_quarters: "\<exists>acc::real. acc * 4 = 3" by (rule exI [of _ "3 / 4"]) simp
  have 1: "prepare_data (failing_libs ''download'') empty_world =
      (Inl (LibraryError ''download''), empty_world\<lparr>trace := prepare_events\<rparr>)"
    using failures_propagate [where w = empty_world and jd = "Some ''job''"
        and prefix = "''models''" and bucket = "Some ''bkt''" and bs = 2 and ep = 1
        and tr = mock_train and te = mock_test
        and L = "failing_libs ''download''" and e = "LibraryError ''download''", THEN conjunct1]
    by (simp add: ev)
  have 2: "prepare_data (failing_libs ''labels'') empty_world =
      (Inl ValueError, empty_world\<lparr>trace := prepare_events\<rparr>)"
    using failures_propagate [where w = empty_world and jd = "Some ''job''"
        and prefix = "''models''" and bucket = "Some ''bkt''" and bs = 2 and ep = 1
        and tr = mock_train and te = mock_test
        and L = "failing_libs ''labels''" and e = ValueError, THEN conjunct1]
    by (simp add: ev preprocess_y_def to_categorical_def np_array_int_def)
  have 3: "train_and_evaluate (failing_libs ''build'') mock_train mock_test (Some ''bkt'')
       ''models'' (Some ''job'') 2 1 empty_world =
      (Inl (LibraryError ''build''), empty_world\<lparr>trace := take 3 mock_events\<rparr>)"
    using failures_propagate [where w = empty_world and jd = "Some ''job''"
        and prefix = "''models''" and bucket = "Some ''bkt''" and bs = 2 and ep = 1
        and tr = mock_train and te = mock_test
        and L = "failing_libs ''build''" and e = "LibraryError ''build''", THEN conjunct2, THEN conjunct2]
    by (simp add: ev)
  have 4: "train_and_evaluate (failing_libs ''evaluate'') mock_train mock_test (Some ''bkt'')
       ''models'' (Some ''job'') 2 1 empty_world =
      (Inl (LibraryError ''evaluate''), empty_world\<lparr>trace := take 6 mock_events\<rparr>)"
    using failures_propagate [where w = empty_world and jd = "Some ''job''"
        and prefix = "''models''" and bucket = "Some ''bkt''" and bs = 2 and ep = 1
        and tr = mock_train and te = mock_test
        and L = "failing_libs ''evaluate''" and e = "LibraryError ''evaluate''", THEN conjunct2, THEN conjunct2]
    by (simp add: ev)
  have 5: "train_and_evaluate (failing_libs ''client'') mock_train mock_test (Some ''bkt'')
       ''models'' (Some ''job'') 2 1 empty_world =
      (Inl (LibraryError ''client''),
       empty_world\<lparr>trace := take 9 mock_events, local_files := {''mymodel.h5''}\<rparr>)"
    using failures_propagate [where w = empty_world and jd = "Some ''job''"
        and prefix = "''models''" and bucket = "Some ''bkt''" and bs = 2 and ep = 1
        and tr = mock_train and te = mock_test
        and L = "failing_libs ''client''" and e = "LibraryError ''client''", THEN conjunct2, THEN conjunct2]
      quarter three_quarters
    by (simp add: ev)
  have 6: "train_and_evaluate (failing_libs ''upload'') mock_train mock_test (Some ''bkt'')
       ''models'' (Some ''job'') 2 1 empty_world =
      (Inl (LibraryError ''upload''),
       empty_world\<lparr>trace := take 11 mock_events, local_files := {''mymodel.h5''}\<rparr>)"
    using failures_propagate [where w = empty_world and jd = "Some ''job''"
        and prefix = "''models''" and bucket = "Some ''bkt''" and bs = 2 and ep = 1
        and tr = mock_train and te = mock_test
        and L = "failing_libs ''upload''" and e = "LibraryError ''upload''", THEN conjunct2, THEN conjunct2]
      quarter three_quarters
    by (simp add: ev)
  have 7: "train_and_evaluate (failing_libs ''summary'') mock_train mock_test (Some ''bkt'')
       ''models'' (Some ''job'') 2 1 empty_world =
      (Inl (LibraryError ''summary''),
       empty_world\<lparr>trace := take 14 mock_events, local_files := {''mymodel.h5''}\<rparr>)"
    using failures_propagate [where w = empty_world and jd = "Some ''job''"
        and prefix = "''models''" and bucket = "Some ''bkt''" and bs = 2 and ep = 1
        and tr = mock_train and te = mock_test
        and L = "failing_libs ''summary''" and e = "LibraryError ''summary''", THEN conjunct2, THEN conjunct2]
    apply (simp add: ev)
    apply (drule spec [of _ "1 / 4"], drule spec [of _ "3 / 4"])
    apply simp
    done
  from 1 2 3 4 5 6 7 show ?thesis by blast
qed

end
